theory Spec2Isabelle
  imports Main
begin

section \<open>Data model of the deck store\<close>

text \<open>
  The store of \<^verbatim>\<open>src/lib/store\<close> (the second part of the source file, lines 126 to
  783) keeps one \<^verbatim>\<open>AgentSession\<close> per column in \<^verbatim>\<open>sessions: Record<string, AgentSession>\<close>.
  The type declarations live in \<^verbatim>\<open>../types\<close>; the constructors below are the string
  literals the store assigns to \<^verbatim>\<open>status\<close> and \<^verbatim>\<open>role\<close>.

  JavaScript objects may lack properties: \<^verbatim>\<open>{...undefined, status}\<close> is an object that
  has a \<^verbatim>\<open>status\<close> and nothing else. Every property that can be absent is an option;
  \<open>None\<close> stands for \<^verbatim>\<open>undefined\<close> (and for \<^verbatim>\<open>null\<close> in \<open>activeRunId\<close>: no
  branch of the store tells the two apart). Strings are ASCII character lists, numbers
  are integers.
\<close>

datatype agentStatus = Idle | Thinking | Streaming | ToolUse | Error | Disconnected

datatype chatRole = User | Assistant | Announcement | Compaction

record compactionInfo =
  beforeTokens :: int
  afterTokens :: int
  droppedMessages :: int

record chatMessage =
  id_msg :: string
  role :: chatRole
  text_msg :: string
  timestamp :: int
  streaming :: "bool option"
  runId :: "string option"
  announcement :: "bool option"
  compaction :: "compactionInfo option"

record sessionUsage =
  totalTokens :: int

record agentSession =
  agentId :: "string option"
  status :: agentStatus
  messages :: "chatMessage list option"
  activeRunId :: "string option"
  tokenCount :: "int option"
  connected :: "bool option"
  usage :: "sessionUsage option"

text \<open>
  Of the store, \<open>sessions\<close> and the client's \<^verbatim>\<open>connected\<close> flag matter to the
  operations below: \<open>clientConnected\<close> is \<^verbatim>\<open>client?.connected\<close>, \<open>None\<close> when
  \<^verbatim>\<open>client\<close> is \<^verbatim>\<open>null\<close>. The remaining fields (config, column order, theme) are
  the record's extension.
\<close>

record deckStore =
  sessions :: "string \<rightharpoonup> agentSession"
  clientConnected :: "bool option"

text \<open>
  What a handler reads from the outside world while it runs: \<^verbatim>\<open>Date.now()\<close> and the
  fresh identifier of \<^verbatim>\<open>makeId()\<close>. A handler is synchronous, so the clock is read
  as one value per handled event.
\<close>

record env =
  now :: int
  newId :: string

datatype error = TypeError

text \<open>\<^verbatim>\<open>createSession(agentId)\<close>.\<close>

definition createSession :: "string \<Rightarrow> agentSession" where
  "createSession aid =
     \<lparr>agentId = Some aid, status = Idle, messages = Some [], activeRunId = None,
      tokenCount = Some 0, connected = Some False, usage = None\<rparr>"

text \<open>The object \<^verbatim>\<open>{...undefined, status}\<close>: a status and no other property.\<close>

definition statusOnly :: "agentStatus \<Rightarrow> agentSession" where
  "statusOnly st =
     \<lparr>agentId = None, status = st, messages = None, activeRunId = None,
      tokenCount = None, connected = None, usage = None\<rparr>"

section \<open>Session keys\<close>

text \<open>
  \<^verbatim>\<open>s.split(":")\<close>: the pieces between the separators; the empty string gives one
  empty piece.
\<close>

fun splitOn :: "char \<Rightarrow> string \<Rightarrow> string list" where
  "splitOn sep [] = [[]]"
| "splitOn sep (c # cs) =
     (if c = sep then [] # splitOn sep cs
      else (case splitOn sep cs of
              [] \<Rightarrow> [[c]]
            | p # ps \<Rightarrow> (c # p) # ps))"

text \<open>
  \<^verbatim>\<open>const parts = sessionKey?.split(":") ?? []; const agentId = parts[2] ?? parts[1] ?? "main";\<close>
\<close>

definition agentIdOfKey :: "string option \<Rightarrow> string" where
  "agentIdOfKey sessionKey =
     (let parts = (case sessionKey of None \<Rightarrow> [] | Some k \<Rightarrow> splitOn CHR '':'' k)
      in if 2 < length parts then parts ! 2
         else if 1 < length parts then parts ! 1
         else ''main'')"

section \<open>Store actions\<close>

text \<open>
  \<^verbatim>\<open>setAgentStatus\<close> writes \<^verbatim>\<open>{...state.sessions[agentId], status}\<close> under the key,
  whether or not the key was there.
\<close>

definition setAgentStatus :: "string \<Rightarrow> agentStatus \<Rightarrow> deckStore \<Rightarrow> deckStore" where
  "setAgentStatus aid st state =
     state\<lparr>sessions := (sessions state)(aid \<mapsto>
        (case sessions state aid of
           None \<Rightarrow> statusOnly st
         | Some session \<Rightarrow> session\<lparr>status := st\<rparr>))\<rparr>"

definition appendChunk :: "string option \<Rightarrow> string \<Rightarrow> chatMessage \<Rightarrow> chatMessage" where
  "appendChunk rid chunk msg =
     (if runId msg = rid \<and> streaming msg = Some True
      then msg\<lparr>text_msg := text_msg msg @ chunk\<rparr> else msg)"

definition appendMessageChunk :: "string \<Rightarrow> string option \<Rightarrow> string \<Rightarrow> deckStore \<Rightarrow> deckStore" where
  "appendMessageChunk aid rid chunk state =
     (case sessions state aid of
        None \<Rightarrow> state
      | Some session \<Rightarrow>
          (case messages session of
             None \<Rightarrow> state
           | Some ms \<Rightarrow>
               state\<lparr>sessions := (sessions state)(aid \<mapsto>
                 session\<lparr>messages := Some (map (appendChunk rid chunk) ms),
                         tokenCount := map_option (\<lambda>n. n + int (length chunk)) (tokenCount session)\<rparr>)\<rparr>))"

definition seal :: "string option \<Rightarrow> chatMessage \<Rightarrow> chatMessage" where
  "seal rid msg = (if runId msg = rid then msg\<lparr>streaming := Some False\<rparr> else msg)"

definition finalizeMessage :: "string \<Rightarrow> string option \<Rightarrow> deckStore \<Rightarrow> deckStore" where
  "finalizeMessage aid rid state =
     (case sessions state aid of
        None \<Rightarrow> state
      | Some session \<Rightarrow>
          (case messages session of
             None \<Rightarrow> state
           | Some ms \<Rightarrow>
               state\<lparr>sessions := (sessions state)(aid \<mapsto>
                 session\<lparr>messages := Some (map (seal rid) ms),
                         activeRunId := None,
                         status := Idle\<rparr>)\<rparr>))"

section \<open>Gateway events\<close>

text \<open>
  \<^verbatim>\<open>handleGatewayEvent\<close> reads the payload through casts; each payload below has the
  properties the handler reads, at the types it casts them to, absent when \<open>None\<close>.
  The payload itself is an object. \<open>truthy\<close> is JavaScript's test of a string that may
  be absent; \<open>orElse\<close> is the operator \<^verbatim>\<open>??\<close>.

  The handlers are modelled for session keys whose id names no member of
  \<^verbatim>\<open>Object.prototype\<close>: for those ids \<^verbatim>\<open>sessions[agentId]\<close> is the session the
  store owns under the id, or \<^verbatim>\<open>undefined\<close>. (\<open>sendMessageStart\<close> below, whose id
  comes from the caller, treats the inherited members as well.)
\<close>

definition truthy :: "string option \<Rightarrow> bool" where
  "truthy v = (case v of None \<Rightarrow> False | Some s \<Rightarrow> s \<noteq> [])"

definition orElse :: "'a option \<Rightarrow> 'a option \<Rightarrow> 'a option" where
  "orElse a b = (case a of None \<Rightarrow> b | Some v \<Rightarrow> Some v)"

record agentData =
  delta :: "string option"
  phase :: "string option"

record contentPart =
  part_type :: "string option"
  part_text :: "string option"

datatype contentVal = Parts "contentPart list" | Str string

text \<open>The object under \<^verbatim>\<open>payload.message\<close> of a chat event.\<close>

record chatBody =
  body_role :: "string option"
  body_content :: "contentVal option"
  body_text :: "contentVal option"
  body_body :: "contentVal option"

record chatPayload =
  chat_state :: "string option"
  chat_runId :: "string option"
  chat_sessionKey :: "string option"
  chat_session :: "string option"
  chat_message :: "chatBody option"
  chat_data :: "chatBody option"
  chat_content :: "chatBody option"

datatype gatewayEvent =
    AgentEvent "string option" "string option" "agentData option" "string option"
      \<comment> \<open>runId, stream, data, sessionKey\<close>
  | PresenceEvent "(string \<times> bool) list option"
      \<comment> \<open>the entries of \<^verbatim>\<open>payload.agents\<close>, each id with its \<^verbatim>\<open>online\<close> flag\<close>
  | TickEvent
  | CompactionEvent "string option" "int option" "int option" "int option"
      \<comment> \<open>sessionKey, beforeTokens, afterTokens, droppedMessages\<close>
  | UsageEvent "string option" "sessionUsage option"
      \<comment> \<open>\<^verbatim>\<open>sessions.usage\<close>: sessionKey, usage\<close>
  | ChatEvent chatPayload
  | OtherEvent string

subsection \<open>Text helpers\<close>

definition isSpace :: "char \<Rightarrow> bool" where
  "isSpace c = (c \<in> set [CHR 0x09, CHR 0x0A, CHR 0x0B, CHR 0x0C, CHR 0x0D, CHR 0x20])"

definition trim :: "string \<Rightarrow> string" where
  "trim s = rev (dropWhile isSpace (rev (dropWhile isSpace s)))"

definition lowerChar :: "char \<Rightarrow> char" where
  "lowerChar c =
     (case map_of (zip ''ABCDEFGHIJKLMNOPQRSTUVWXYZ'' ''abcdefghijklmnopqrstuvwxyz'') c of
        None \<Rightarrow> c
      | Some l \<Rightarrow> l)"

primrec hasInfix :: "string \<Rightarrow> string \<Rightarrow> bool" where
  "hasInfix pat [] = (pat = [])"
| "hasInfix pat (c # cs) = (take (length pat) (c # cs) = pat \<or> hasInfix pat cs)"

text \<open>\<^verbatim>\<open>/p1|p2|.../i.test(text)\<close> for literal alternatives, given in lower case.\<close>

definition testAnyCI :: "string list \<Rightarrow> string \<Rightarrow> bool" where
  "testAnyCI pats s = list_ex (\<lambda>p. hasInfix p (map lowerChar s)) pats"

text \<open>
  The text of a content value: the \<^verbatim>\<open>text\<close>-typed parts with a non-empty text, joined,
  or the string itself, or the empty string.
\<close>

definition extractText :: "contentVal option \<Rightarrow> string" where
  "extractText c =
     (case c of
        Some (Parts ps) \<Rightarrow>
          concat (map (\<lambda>p. case part_text p of None \<Rightarrow> [] | Some t \<Rightarrow> t)
                   (filter (\<lambda>p. part_type p = Some ''text'' \<and> truthy (part_text p)) ps))
      | Some (Str s) \<Rightarrow> s
      | None \<Rightarrow> [])"

subsection \<open>The cases of the handler\<close>

definition placeholderMsg :: "env \<Rightarrow> string option \<Rightarrow> bool \<Rightarrow> chatMessage" where
  "placeholderMsg e rid isAnnouncement =
     \<lparr>id_msg = newId e,
      role = (if isAnnouncement then Announcement else Assistant),
      text_msg = [], timestamp = now e, streaming = Some True, runId = rid,
      announcement = Some isAnnouncement, compaction = None\<rparr>"

definition lifecycleStart :: "env \<Rightarrow> string \<Rightarrow> string option \<Rightarrow> deckStore \<Rightarrow> error + deckStore" where
  "lifecycleStart e aid rid state =
     (case sessions state aid of
        None \<Rightarrow> Inr (setAgentStatus aid Thinking state)
      | Some session \<Rightarrow>
          (case messages session of
             None \<Rightarrow> Inl TypeError
           | Some ms \<Rightarrow>
               (if list_ex (\<lambda>msg. runId msg = rid) ms
                then Inr (setAgentStatus aid Thinking state)
                else Inr (setAgentStatus aid Thinking
                       (state\<lparr>sessions := (sessions state)(aid \<mapsto>
                          session\<lparr>messages := Some (ms @ [placeholderMsg e rid (status session = Idle)]),
                                  activeRunId := rid\<rparr>)\<rparr>)))))"

definition handleAgent ::
  "env \<Rightarrow> string option \<Rightarrow> string option \<Rightarrow> agentData option \<Rightarrow> string option \<Rightarrow> deckStore
     \<Rightarrow> error + deckStore" where
  "handleAgent e rid stream data sessionKey state =
     (let aid = agentIdOfKey sessionKey;
          d = (case data of None \<Rightarrow> None | Some x \<Rightarrow> delta x);
          ph = (case data of None \<Rightarrow> None | Some x \<Rightarrow> phase x)
      in if stream = Some ''assistant'' \<and> truthy d
         then Inr (setAgentStatus aid Streaming (appendMessageChunk aid rid (case d of None \<Rightarrow> [] | Some c \<Rightarrow> c) state))
         else if stream = Some ''lifecycle''
         then (if ph = Some ''start'' then lifecycleStart e aid rid state
               else if ph = Some ''end'' then Inr (finalizeMessage aid rid state)
               else Inr state)
         else if stream = Some ''tool_use'' then Inr (setAgentStatus aid ToolUse state)
         else Inr state)"

definition presenceStep :: "string \<times> bool \<Rightarrow> (string \<rightharpoonup> agentSession) \<Rightarrow> (string \<rightharpoonup> agentSession)" where
  "presenceStep entry ss =
     (case ss (fst entry) of
        None \<Rightarrow> ss
      | Some session \<Rightarrow>
          ss(fst entry \<mapsto>
            session\<lparr>connected := Some (snd entry),
                    status := (if snd entry then status session else Disconnected)\<rparr>))"

definition handlePresence :: "(string \<times> bool) list option \<Rightarrow> deckStore \<Rightarrow> deckStore" where
  "handlePresence agents state =
     (case agents of
        None \<Rightarrow> state
      | Some entries \<Rightarrow> state\<lparr>sessions := fold presenceStep entries (sessions state)\<rparr>)"

definition compactionMsg :: "env \<Rightarrow> int option \<Rightarrow> int option \<Rightarrow> int option \<Rightarrow> chatMessage" where
  "compactionMsg e b a d =
     \<lparr>id_msg = newId e, role = Compaction, text_msg = [], timestamp = now e,
      streaming = None, runId = None, announcement = None,
      compaction = Some \<lparr>beforeTokens = (case b of None \<Rightarrow> 0 | Some n \<Rightarrow> n),
                         afterTokens = (case a of None \<Rightarrow> 0 | Some n \<Rightarrow> n),
                         droppedMessages = (case d of None \<Rightarrow> 0 | Some n \<Rightarrow> n)\<rparr>\<rparr>"

definition handleCompaction ::
  "env \<Rightarrow> string option \<Rightarrow> int option \<Rightarrow> int option \<Rightarrow> int option \<Rightarrow> deckStore \<Rightarrow> error + deckStore" where
  "handleCompaction e sessionKey b a d state =
     (let aid = agentIdOfKey sessionKey
      in case sessions state aid of
           None \<Rightarrow> Inr state
         | Some session \<Rightarrow>
             (case messages session of
                None \<Rightarrow> Inl TypeError
              | Some ms \<Rightarrow>
                  Inr (state\<lparr>sessions := (sessions state)(aid \<mapsto>
                         session\<lparr>messages := Some (ms @ [compactionMsg e b a d])\<rparr>)\<rparr>)))"

definition handleUsage :: "string option \<Rightarrow> sessionUsage option \<Rightarrow> deckStore \<Rightarrow> deckStore" where
  "handleUsage sessionKey u state =
     (let aid = agentIdOfKey sessionKey
      in case u of
           None \<Rightarrow> state
         | Some us \<Rightarrow>
             (case sessions state aid of
                None \<Rightarrow> state
              | Some session \<Rightarrow>
                  state\<lparr>sessions := (sessions state)(aid \<mapsto>
                    session\<lparr>usage := Some us, tokenCount := Some (totalTokens us)\<rparr>)\<rparr>))"

definition announcementMsg :: "env \<Rightarrow> string \<Rightarrow> string option \<Rightarrow> chatMessage" where
  "announcementMsg e txt rid =
     \<lparr>id_msg = newId e, role = Announcement, text_msg = txt, timestamp = now e,
      streaming = None, runId = rid, announcement = Some True, compaction = None\<rparr>"

text \<open>
  \<^verbatim>\<open>payload.message ?? payload.data ?? payload.content\<close>, and the text extracted from
  \<^verbatim>\<open>message.content ?? message.text ?? message.body\<close>.
\<close>

definition chatBodyOf :: "chatPayload \<Rightarrow> chatBody option" where
  "chatBodyOf p = orElse (orElse (chat_message p) (chat_data p)) (chat_content p)"

definition chatText :: "chatBody \<Rightarrow> string" where
  "chatText message =
     extractText (orElse (orElse (body_content message) (body_text message)) (body_body message))"

definition handleChat :: "env \<Rightarrow> chatPayload \<Rightarrow> deckStore \<Rightarrow> error + deckStore" where
  "handleChat e p state =
     (let aid = agentIdOfKey (orElse (chat_sessionKey p) (chat_session p))
      in case sessions state aid of
           None \<Rightarrow> Inr state
         | Some session \<Rightarrow>
             (if chat_state p \<noteq> Some ''final'' then Inr state
              else case chatBodyOf p of
                None \<Rightarrow> Inr state
              | Some message \<Rightarrow>
                  (let r = body_role message; txt = chatText message
                   in if trim txt = [] then Inr state
                      else if testAnyCI [''heartbeat_ok'', ''heartbeat''] txt then Inr state
                      else if r = Some ''tool'' \<or> r = Some ''function'' then Inr state
                      else case messages session of
                        None \<Rightarrow> Inl TypeError
                      | Some ms \<Rightarrow>
                          (if truthy (chat_runId p) \<and> list_ex (\<lambda>m. runId m = chat_runId p) ms
                           then Inr state
                           else if ms \<noteq> [] \<and> text_msg (last ms) = txt
                                     \<and> now e - timestamp (last ms) < 5000
                           then Inr state
                           else if r = Some ''assistant'' \<or> r = Some ''system''
                           then Inr (state\<lparr>sessions := (sessions state)(aid \<mapsto>
                                  session\<lparr>messages :=
                                    Some (ms @ [announcementMsg e txt (chat_runId p)])\<rparr>)\<rparr>)
                           else Inr state))))"

fun handleGatewayEvent :: "env \<Rightarrow> gatewayEvent \<Rightarrow> deckStore \<Rightarrow> error + deckStore" where
  "handleGatewayEvent e (AgentEvent rid stream data sessionKey) state =
     handleAgent e rid stream data sessionKey state"
| "handleGatewayEvent e (PresenceEvent agents) state = Inr (handlePresence agents state)"
| "handleGatewayEvent e TickEvent state = Inr state"
| "handleGatewayEvent e (CompactionEvent sessionKey b a d) state =
     handleCompaction e sessionKey b a d state"
| "handleGatewayEvent e (UsageEvent sessionKey u) state = Inr (handleUsage sessionKey u state)"
| "handleGatewayEvent e (ChatEvent p) state = handleChat e p state"
| "handleGatewayEvent e (OtherEvent name) state = Inr state"

text \<open>
  The store after an event: a handler that throws has not yet written the store, so
  the store is then as it was.
\<close>

definition storeAfter :: "env \<Rightarrow> gatewayEvent \<Rightarrow> deckStore \<Rightarrow> deckStore" where
  "storeAfter e ev state =
     (case handleGatewayEvent e ev state of Inl err \<Rightarrow> state | Inr state' \<Rightarrow> state')"

section \<open>History bootstrap\<close>

text \<open>
  A raw message of \<^verbatim>\<open>chat.history\<close>: role, content, timestamp and
  \<^verbatim>\<open>__openclaw?.kind\<close>.
\<close>

record rawMessage =
  raw_role :: "string option"
  raw_content :: "contentVal option"
  raw_timestamp :: "int option"
  raw_kind :: "string option"

text \<open>One pass of the loop of \<^verbatim>\<open>parseHistoryMessages\<close>: the messages it pushes.\<close>

definition parseOne :: "env \<Rightarrow> rawMessage \<Rightarrow> chatMessage list" where
  "parseOne e msg =
     (let r = raw_role msg; txt = extractText (raw_content msg)
      in if \<not> truthy r then []
         else if r = Some ''tool'' \<or> r = Some ''toolresult'' \<or> r = Some ''function'' then []
         else if raw_kind msg = Some ''compaction'' then []
         else if trim txt = [] then []
         else if testAnyCI [''heartbeat_ok'', ''heartbeat'', ''no_reply''] txt then []
         else if r = Some ''user'' \<or> r = Some ''assistant'' \<or> r = Some ''system''
         then [\<lparr>id_msg = newId e,
                role = (if r = Some ''user'' then User
                        else if r = Some ''assistant'' then Assistant else Announcement),
                text_msg = txt,
                timestamp = (case raw_timestamp msg of None \<Rightarrow> now e | Some t \<Rightarrow> t),
                streaming = None, runId = None,
                announcement = Some (r = Some ''system''), compaction = None\<rparr>]
         else [])"

text \<open>
  \<^verbatim>\<open>parseHistoryMessages(raw)\<close>; \<open>envs k\<close> is what the pass over the \<open>k\<close>-th raw
  message reads from the clock and from \<^verbatim>\<open>makeId()\<close>.
\<close>

primrec parseFrom :: "(nat \<Rightarrow> env) \<Rightarrow> rawMessage list \<Rightarrow> chatMessage list" where
  "parseFrom envs [] = []"
| "parseFrom envs (msg # rest) = parseOne (envs 0) msg @ parseFrom (\<lambda>k. envs (Suc k)) rest"

definition parseHistoryMessages :: "(nat \<Rightarrow> env) \<Rightarrow> rawMessage list option \<Rightarrow> chatMessage list" where
  "parseHistoryMessages envs raw = (case raw of None \<Rightarrow> [] | Some ms \<Rightarrow> parseFrom envs ms)"

text \<open>
  The continuation of \<^verbatim>\<open>client.chatHistory(sessionKey, 50)\<close> in \<^verbatim>\<open>onConnection\<close>,
  run when the fetch for \<open>aid\<close> resolves with the raw messages. An exception in it is
  caught by the \<^verbatim>\<open>.catch\<close> that follows and logged, with the store as it was.
\<close>

definition historyResolved :: "(nat \<Rightarrow> env) \<Rightarrow> string \<Rightarrow> rawMessage list option \<Rightarrow> deckStore \<Rightarrow> deckStore" where
  "historyResolved envs aid raw state =
     (let historyMsgs = parseHistoryMessages envs raw
      in if historyMsgs = [] then state
         else case sessions state aid of
           None \<Rightarrow> state
         | Some session \<Rightarrow>
             (case messages session of
                None \<Rightarrow> state
              | Some ms \<Rightarrow>
                  (if 0 < length ms then state
                   else state\<lparr>sessions := (sessions state)(aid \<mapsto>
                          session\<lparr>messages := Some historyMsgs\<rparr>)\<rparr>)))"

section \<open>Sending a message\<close>

text \<open>
  \<^verbatim>\<open>sendMessage\<close> is asynchronous: it runs to \<^verbatim>\<open>await client.runAgent(...)\<close>, and
  goes on when the request settles. \<open>sendMessageStart\<close> is the first part, which
  returns early, throws, or leaves the store in which the request is awaited;
  \<open>sendMessageSettle\<close> is the second, run on the store as it is when the request
  resolves with a run id or rejects.
\<close>

datatype runOutcome = Resolved "string option" | Rejected

datatype sendStart = Returned | Threw error | Awaiting deckStore

definition userMsg :: "env \<Rightarrow> string \<Rightarrow> chatMessage" where
  "userMsg e txt =
     \<lparr>id_msg = newId e, role = User, text_msg = txt, timestamp = now e,
      streaming = None, runId = None, announcement = None, compaction = None\<rparr>"

definition assistantMsg :: "env \<Rightarrow> string option \<Rightarrow> chatMessage" where
  "assistantMsg e rid =
     \<lparr>id_msg = newId e, role = Assistant, text_msg = [], timestamp = now e,
      streaming = Some True, runId = rid, announcement = None, compaction = None\<rparr>"

text \<open>
  \<^verbatim>\<open>sessions\<close> is a plain object, and \<^verbatim>\<open>sendMessage\<close> reads \<^verbatim>\<open>sessions[agentId]\<close>
  for an id its caller chooses. Under a key the object does not own, the read gives the
  member of \<^verbatim>\<open>Object.prototype\<close> of that name when there is one: a function (the
  prototype itself for \<^verbatim>\<open>__proto__\<close>), which is truthy and has no \<^verbatim>\<open>messages\<close>. The
  guard \<^verbatim>\<open>if (!session) return\<close> then does not fire, and
  \<^verbatim>\<open>[...session.messages, userMsg]\<close> throws before the \<^verbatim>\<open>try\<close>.
\<close>

definition objectPrototypeKeys :: "string list" where
  "objectPrototypeKeys =
     [''constructor'', ''__defineGetter__'', ''__defineSetter__'', ''hasOwnProperty'',
      ''__lookupGetter__'', ''__lookupSetter__'', ''isPrototypeOf'', ''propertyIsEnumerable'',
      ''toString'', ''valueOf'', ''__proto__'', ''toLocaleString'']"

definition sendMessageStart :: "env \<Rightarrow> string \<Rightarrow> string \<Rightarrow> deckStore \<Rightarrow> sendStart" where
  "sendMessageStart e aid txt state =
     (if clientConnected state \<noteq> Some True then Returned
      else case sessions state aid of
        None \<Rightarrow> (if aid \<in> set objectPrototypeKeys then Threw TypeError else Returned)
      | Some session \<Rightarrow>
          (case messages session of
             None \<Rightarrow> Threw TypeError
           | Some ms \<Rightarrow>
               Awaiting (state\<lparr>sessions := (sessions state)(aid \<mapsto>
                 session\<lparr>messages := Some (ms @ [userMsg e txt]), status := Thinking\<rparr>)\<rparr>)))"

text \<open>The \<^verbatim>\<open>catch\<close> branch: \<^verbatim>\<open>{...state.sessions[agentId], status: "error"}\<close>.\<close>

definition runFailed :: "string \<Rightarrow> deckStore \<Rightarrow> deckStore" where
  "runFailed aid state =
     state\<lparr>sessions := (sessions state)(aid \<mapsto>
        (case sessions state aid of
           None \<Rightarrow> statusOnly Error
         | Some session \<Rightarrow> session\<lparr>status := Error\<rparr>))\<rparr>"

definition sendMessageSettle :: "env \<Rightarrow> string \<Rightarrow> runOutcome \<Rightarrow> deckStore \<Rightarrow> deckStore" where
  "sendMessageSettle e aid outcome state =
     (case outcome of
        Rejected \<Rightarrow> runFailed aid state
      | Resolved rid \<Rightarrow>
          (case sessions state aid of
             None \<Rightarrow> runFailed aid state
           | Some session \<Rightarrow>
               (case messages session of
                  None \<Rightarrow> runFailed aid state
                | Some ms \<Rightarrow>
                    state\<lparr>sessions := (sessions state)(aid \<mapsto>
                      session\<lparr>messages := Some (ms @ [assistantMsg e rid]),
                              activeRunId := rid,
                              status := Streaming\<rparr>)\<rparr>)))"

text \<open>
  A whole call during which nothing else touches the store: \<open>e1\<close> is read before the
  request, \<open>e2\<close> after it.
\<close>

definition sendMessage :: "env \<Rightarrow> env \<Rightarrow> string \<Rightarrow> string \<Rightarrow> runOutcome \<Rightarrow> deckStore \<Rightarrow> error + deckStore" where
  "sendMessage e1 e2 aid txt outcome state =
     (case sendMessageStart e1 aid txt state of
        Returned \<Rightarrow> Inr state
      | Threw err \<Rightarrow> Inl err
      | Awaiting state1 \<Rightarrow> Inr (sendMessageSettle e2 aid outcome state1))"

section \<open>Events and stores used in the statements\<close>

text \<open>The messages of a session of the store, when it has them.\<close>

definition messagesOf :: "deckStore \<Rightarrow> string \<Rightarrow> chatMessage list option" where
  "messagesOf state aid = (case sessions state aid of None \<Rightarrow> None | Some s \<Rightarrow> messages s)"

definition statusOf :: "deckStore \<Rightarrow> string \<Rightarrow> agentStatus option" where
  "statusOf state aid = map_option status (sessions state aid)"

text \<open>
  A stream-delta: an \<^verbatim>\<open>agent\<close> event on the \<^verbatim>\<open>assistant\<close> stream whose data carries
  the chunk. The lifecycle events carry a phase.
\<close>

definition deltaEvent :: "string option \<Rightarrow> string option \<Rightarrow> string \<Rightarrow> gatewayEvent" where
  "deltaEvent rid key chunk =
     AgentEvent rid (Some ''assistant'') (Some \<lparr>delta = Some chunk, phase = None\<rparr>) key"

definition lifecycleEvent :: "string option \<Rightarrow> string option \<Rightarrow> string \<Rightarrow> gatewayEvent" where
  "lifecycleEvent rid key ph =
     AgentEvent rid (Some ''lifecycle'') (Some \<lparr>delta = None, phase = Some ph\<rparr>) key"

text \<open>A chat event in state \<^verbatim>\<open>final\<close> whose message has a role and a plain string content.\<close>

definition finalChat :: "string option \<Rightarrow> string option \<Rightarrow> string \<Rightarrow> string \<Rightarrow> chatPayload" where
  "finalChat rid key r txt =
     \<lparr>chat_state = Some ''final'', chat_runId = rid, chat_sessionKey = key,
      chat_session = None,
      chat_message = Some \<lparr>body_role = Some r, body_content = Some (Str txt),
                           body_text = None, body_body = None\<rparr>,
      chat_data = None, chat_content = None\<rparr>"

text \<open>Deliver stream-deltas of one run in order, each with what its handler reads.\<close>

definition deliverDeltas :: "string option \<Rightarrow> string option \<Rightarrow> (env \<times> string) list \<Rightarrow> deckStore \<Rightarrow> deckStore" where
  "deliverDeltas rid key ecs state =
     fold (\<lambda>ec. storeAfter (fst ec) (deltaEvent rid key (snd ec))) ecs state"

text \<open>A store with one connected column \<open>a\<close>, fresh or in the middle of run \<open>r1\<close>.\<close>

definition envAt :: "int \<Rightarrow> env" where
  "envAt t = \<lparr>now = t, newId = ''m''\<rparr>"

definition keyA :: "string option" where
  "keyA = Some ''agent:main:a''"

definition freshStore :: deckStore where
  "freshStore = \<lparr>sessions = [''a'' \<mapsto> createSession ''a''], clientConnected = Some True\<rparr>"

definition streamingSession :: agentSession where
  "streamingSession =
     \<lparr>agentId = Some ''a'', status = Streaming,
      messages = Some [userMsg (envAt 0) ''hello'',
                       (assistantMsg (envAt 1) (Some ''r1''))\<lparr>text_msg := ''He''\<rparr>],
      activeRunId = Some ''r1'', tokenCount = Some 2, connected = Some True, usage = None\<rparr>"

definition streamingStore :: deckStore where
  "streamingStore = \<lparr>sessions = [''a'' \<mapsto> streamingSession], clientConnected = Some True\<rparr>"

definition emptyStore :: deckStore where
  "emptyStore = \<lparr>sessions = Map.empty, clientConnected = Some True\<rparr>"

definition oldReply :: rawMessage where
  "oldReply =
     \<lparr>raw_role = Some ''assistant'', raw_content = Some (Str ''old reply''),
      raw_timestamp = Some 1, raw_kind = None\<rparr>"

section \<open>Facts about the handlers\<close>

lemma agentIdOfKey_keyA: "agentIdOfKey keyA = ''a''"
  by (simp add: agentIdOfKey_def keyA_def)

lemma messages_same: "messages s = v \<Longrightarrow> s\<lparr>messages := v\<rparr> = s"
  by simp

lemma handle_delta:
  "handleGatewayEvent e (deltaEvent rid key chunk) state =
     Inr (if chunk = [] then state
          else setAgentStatus (agentIdOfKey key) Streaming
                 (appendMessageChunk (agentIdOfKey key) rid chunk state))"
  by (simp add: deltaEvent_def handleAgent_def truthy_def Let_def)

lemma handle_lifecycle_end:
  "handleGatewayEvent e (lifecycleEvent rid key ''end'') state =
     Inr (finalizeMessage (agentIdOfKey key) rid state)"
  by (simp add: lifecycleEvent_def handleAgent_def truthy_def Let_def)

lemma handle_lifecycle_start:
  "handleGatewayEvent e (lifecycleEvent rid key ''start'') state =
     lifecycleStart e (agentIdOfKey key) rid state"
  by (simp add: lifecycleEvent_def handleAgent_def truthy_def Let_def)

lemma map_appendChunk_unmatched:
  "\<forall>m\<in>set ms. \<not> (runId m = rid \<and> streaming m = Some True) \<Longrightarrow>
   map (appendChunk rid chunk) ms = ms"
  by (induction ms) (auto simp: appendChunk_def)

lemma appendChunk_Nil: "appendChunk rid [] m = m"
  by (simp add: appendChunk_def)

lemma map_appendChunk_Nil: "map (appendChunk rid []) ms = ms"
  by (induction ms) (simp_all add: appendChunk_Nil)

lemma appendChunk_append:
  "appendChunk rid b (appendChunk rid a m) = appendChunk rid (a @ b) m"
  by (simp add: appendChunk_def)

lemma map_seal_sealed:
  "\<forall>m\<in>set ms. runId m = rid \<longrightarrow> streaming m = Some False \<Longrightarrow> map (seal rid) ms = ms"
  by (induction ms) (auto simp: seal_def)

lemma seal_idem: "seal rid (seal rid m) = seal rid m"
  by (simp add: seal_def)

lemma finalizeMessage_idem:
  "finalizeMessage aid rid (finalizeMessage aid rid state) = finalizeMessage aid rid state"
  by (simp add: finalizeMessage_def seal_idem comp_def split: option.splits)

section \<open>Stream-deltas\<close>

text \<open>
  C1, as the store has it. A stream-delta for a tracked session in which no message is
  streaming under the delta's run id raises nothing and leaves the messages (so no
  message is created), \<open>activeRunId\<close> and every other session as they were; but the
  status becomes \<open>Streaming\<close> and \<open>tokenCount\<close> grows by the length of the chunk. Only
  an empty chunk changes nothing at all.
\<close>

theorem delta_unmatched_C1:
  assumes "sessions state (agentIdOfKey key) = Some s"
    and "messages s = Some ms"
    and "\<forall>m\<in>set ms. \<not> (runId m = rid \<and> streaming m = Some True)"
  shows "handleGatewayEvent e (deltaEvent rid key chunk) state =
           Inr (if chunk = [] then state
                else state\<lparr>sessions := (sessions state)(agentIdOfKey key \<mapsto>
                       s\<lparr>tokenCount := map_option (\<lambda>n. n + int (length chunk)) (tokenCount s),
                          status := Streaming\<rparr>)\<rparr>)"
  using assms
  by (simp add: handle_delta appendMessageChunk_def setAgentStatus_def
      map_appendChunk_unmatched messages_same)

theorem delta_unmatched_C1_witness:
  "handleGatewayEvent (envAt 5) (deltaEvent (Some ''r1'') keyA ''x'') freshStore =
     Inr (freshStore\<lparr>sessions := [''a'' \<mapsto>
            (createSession ''a'')\<lparr>tokenCount := Some 1, status := Streaming\<rparr>]\<rparr>)"
  using delta_unmatched_C1 [of freshStore keyA "createSession ''a''" "[]" "Some ''r1''"
      "envAt 5" "''x''"]
  by (simp add: agentIdOfKey_keyA freshStore_def createSession_def)

text \<open>
  C1 as stated fails: column \<open>a\<close> is idle with no message at all, and a delta
  \<open>x\<close> for run \<open>r1\<close> leaves it with status \<open>Streaming\<close>.
\<close>

theorem delta_unmatched_C1_counterexample:
  "messagesOf freshStore ''a'' = Some []
   \<and> statusOf freshStore ''a'' = Some Idle
   \<and> statusOf (storeAfter (envAt 5) (deltaEvent (Some ''r1'') keyA ''x'') freshStore) ''a''
       = Some Streaming"
  by (simp add: messagesOf_def statusOf_def freshStore_def createSession_def storeAfter_def
      handle_delta agentIdOfKey_keyA appendMessageChunk_def setAgentStatus_def)

lemma delta_messages:
  assumes "sessions state (agentIdOfKey key) = Some s" and "messages s = Some ms"
  shows "\<exists>s'. sessions (storeAfter e (deltaEvent rid key chunk) state) (agentIdOfKey key) = Some s'
            \<and> messages s' = Some (map (appendChunk rid chunk) ms)"
  using assms
  by (simp add: storeAfter_def handle_delta setAgentStatus_def appendMessageChunk_def
      map_appendChunk_Nil)

lemma deliverDeltas_messages:
  "sessions state (agentIdOfKey key) = Some s \<Longrightarrow> messages s = Some ms \<Longrightarrow>
   \<exists>s'. sessions (deliverDeltas rid key ecs state) (agentIdOfKey key) = Some s'
        \<and> messages s' = Some (map (appendChunk rid (concat (map snd ecs))) ms)"
proof (induction ecs arbitrary: state s ms)
  case Nil
  then show ?case by (simp add: deliverDeltas_def appendChunk_Nil)
next
  case (Cons ec ecs)
  from delta_messages [OF Cons.prems, of "fst ec" rid "snd ec"]
  obtain s1 where s1: "sessions (storeAfter (fst ec) (deltaEvent rid key (snd ec)) state)
                          (agentIdOfKey key) = Some s1"
    and m1: "messages s1 = Some (map (appendChunk rid (snd ec)) ms)"
    by blast
  from Cons.IH [OF s1 m1]
  show ?case
    by (simp add: deliverDeltas_def appendChunk_append comp_def)
qed

lemma appendChunk_fun:
  "appendChunk rid chunk =
     (\<lambda>m. if runId m = rid \<and> streaming m = Some True
          then m\<lparr>text_msg := text_msg m @ chunk\<rparr> else m)"
  by (rule ext) (simp add: appendChunk_def)

lemma placeholder_store:
  "storeAfter (envAt 5) (lifecycleEvent (Some ''r9'') keyA ''start'') freshStore =
     freshStore\<lparr>sessions := [''a'' \<mapsto>
       (createSession ''a'')\<lparr>messages := Some [placeholderMsg (envAt 5) (Some ''r9'') True],
                              activeRunId := Some ''r9'', status := Thinking\<rparr>]\<rparr>"
  by (simp add: storeAfter_def handle_lifecycle_start agentIdOfKey_keyA lifecycleStart_def
      freshStore_def createSession_def setAgentStatus_def)

text \<open>
  C6, as the store has it. Deliver any list of stream-deltas of run \<open>rid\<close> in order to
  a tracked session. Every message that was streaming under \<open>rid\<close> ends with the text
  it had before, followed by the concatenation of the chunks in delivery order, and is
  otherwise as it was; every other message is as it was. For a placeholder whose text
  was empty the text is exactly the concatenation. Two ways of splitting the same text
  into chunks leave the same messages.
\<close>

theorem delta_concat_C6:
  assumes "sessions state (agentIdOfKey key) = Some s"
    and "messages s = Some ms"
  shows "messagesOf (deliverDeltas rid key ecs state) (agentIdOfKey key) =
           Some (map (\<lambda>m. if runId m = rid \<and> streaming m = Some True
                           then m\<lparr>text_msg := text_msg m @ concat (map snd ecs)\<rparr>
                           else m) ms)
       \<and> (concat (map snd ecs') = concat (map snd ecs) \<longrightarrow>
            messagesOf (deliverDeltas rid key ecs' state) (agentIdOfKey key) =
              messagesOf (deliverDeltas rid key ecs state) (agentIdOfKey key))"
proof -
  have m: "messagesOf (deliverDeltas rid key cs state) (agentIdOfKey key) =
             Some (map (\<lambda>m. if runId m = rid \<and> streaming m = Some True
                             then m\<lparr>text_msg := text_msg m @ concat (map snd cs)\<rparr>
                             else m) ms)" for cs
    using deliverDeltas_messages [OF assms, of rid cs]
    by (auto simp: messagesOf_def appendChunk_fun)
  show ?thesis
    by (simp add: m)
qed

theorem delta_concat_C6_witness:
  "messagesOf (deliverDeltas (Some ''r9'') keyA [(envAt 6, ''He''), (envAt 7, ''llo'')]
       (storeAfter (envAt 5) (lifecycleEvent (Some ''r9'') keyA ''start'') freshStore)) ''a''
     = Some [(placeholderMsg (envAt 5) (Some ''r9'') True)\<lparr>text_msg := ''Hello''\<rparr>]
   \<and> messagesOf (deliverDeltas (Some ''r9'') keyA [(envAt 6, ''H''), (envAt 7, ''ell''), (envAt 8, ''o'')]
       (storeAfter (envAt 5) (lifecycleEvent (Some ''r9'') keyA ''start'') freshStore)) ''a''
     = Some [(placeholderMsg (envAt 5) (Some ''r9'') True)\<lparr>text_msg := ''Hello''\<rparr>]"
proof -
  let ?st = "storeAfter (envAt 5) (lifecycleEvent (Some ''r9'') keyA ''start'') freshStore"
  let ?s = "(createSession ''a'')\<lparr>messages := Some [placeholderMsg (envAt 5) (Some ''r9'') True],
                              activeRunId := Some ''r9'', status := Thinking\<rparr>"
  have h1: "sessions ?st (agentIdOfKey keyA) = Some ?s"
    by (simp add: placeholder_store agentIdOfKey_keyA)
  have h2: "messages ?s = Some [placeholderMsg (envAt 5) (Some ''r9'') True]"
    by simp
  have p: "runId (placeholderMsg (envAt 5) (Some ''r9'') True) = Some ''r9''"
    "streaming (placeholderMsg (envAt 5) (Some ''r9'') True) = Some True"
    "text_msg (placeholderMsg (envAt 5) (Some ''r9'') True) = []"
    by (simp_all add: placeholderMsg_def)
  from delta_concat_C6 [OF h1 h2, of "Some ''r9''" "[(envAt 6, ''He''), (envAt 7, ''llo'')]"
      "[(envAt 6, ''H''), (envAt 7, ''ell''), (envAt 8, ''o'')]"]
  show ?thesis
    by (simp add: agentIdOfKey_keyA p)
qed

text \<open>
  C6 as stated fails: the message streaming under \<open>r1\<close> holds \<open>He\<close> already, the
  deltas \<open>l\<close> and \<open>lo\<close> arrive, and its text is \<open>Hello\<close>, not the concatenation
  \<open>llo\<close> of the chunks.
\<close>

theorem delta_concat_C6_counterexample:
  "messagesOf streamingStore ''a''
     = Some [userMsg (envAt 0) ''hello'', (assistantMsg (envAt 1) (Some ''r1''))\<lparr>text_msg := ''He''\<rparr>]
   \<and> runId ((assistantMsg (envAt 1) (Some ''r1''))\<lparr>text_msg := ''He''\<rparr>) = Some ''r1''
   \<and> streaming ((assistantMsg (envAt 1) (Some ''r1''))\<lparr>text_msg := ''He''\<rparr>) = Some True
   \<and> map_option (map text_msg)
        (messagesOf (deliverDeltas (Some ''r1'') keyA [(envAt 2, ''l''), (envAt 3, ''lo'')]
           streamingStore) ''a'')
       = Some [''hello'', ''Hello'']
   \<and> concat (map snd [(envAt 2, ''l''), (envAt 3, ''lo'')]) = ''llo''
   \<and> ''Hello'' \<noteq> ''llo''"
  by (simp add: messagesOf_def streamingStore_def streamingSession_def deliverDeltas_def
      storeAfter_def handle_delta agentIdOfKey_keyA appendMessageChunk_def setAgentStatus_def
      appendChunk_def userMsg_def assistantMsg_def)

section \<open>Untracked session ids\<close>

text \<open>
  C2, at an input where the store departs from it. The store tracks no session; an
  \<^verbatim>\<open>agent\<close> event on the \<^verbatim>\<open>tool_use\<close> stream with session key
  \<^verbatim>\<open>agent:main:ghost\<close> is not dropped: \<open>setAgentStatus\<close> writes an entry under
  \<open>ghost\<close> that has a status and nothing else.
\<close>

theorem untracked_status_C2:
  "sessions emptyStore ''ghost'' = None
   \<and> handleGatewayEvent (envAt 5)
        (AgentEvent (Some ''r1'') (Some ''tool_use'') None (Some ''agent:main:ghost''))
        emptyStore
      = Inr (emptyStore\<lparr>sessions := [''ghost'' \<mapsto> statusOnly ToolUse]\<rparr>)"
  by (simp add: handleAgent_def agentIdOfKey_def setAgentStatus_def truthy_def emptyStore_def)

text \<open>
  The entry so created has no message list, and the handlers that read one throw on it:
  a lifecycle start for the same key raises a \<^verbatim>\<open>TypeError\<close>.
\<close>

lemma untracked_status_then_start:
  "handleGatewayEvent (envAt 6) (lifecycleEvent (Some ''r1'') (Some ''agent:main:ghost'') ''start'')
     (emptyStore\<lparr>sessions := [''ghost'' \<mapsto> statusOnly ToolUse]\<rparr>) = Inl TypeError"
  by (simp add: handle_lifecycle_start lifecycleStart_def agentIdOfKey_def statusOnly_def)

section \<open>Presence\<close>

lemma presenceStep_other: "fst entry \<noteq> aid \<Longrightarrow> presenceStep entry ss aid = ss aid"
  by (simp add: presenceStep_def split: option.splits)

lemma fold_presence_other:
  "aid \<notin> fst ` set entries \<Longrightarrow> fold presenceStep entries ss aid = ss aid"
  by (induction entries arbitrary: ss) (auto simp: presenceStep_other)

lemma fold_presence_entry:
  "distinct (map fst entries) \<Longrightarrow> (aid, online) \<in> set entries \<Longrightarrow> ss aid = Some s \<Longrightarrow>
   fold presenceStep entries ss aid =
     Some (s\<lparr>connected := Some online, status := (if online then status s else Disconnected)\<rparr>)"
proof (induction entries arbitrary: ss)
  case Nil
  then show ?case by simp
next
  case (Cons en entries)
  show ?case
  proof (cases "en = (aid, online)")
    case True
    with Cons.prems have "aid \<notin> fst ` set entries" by (auto simp: image_iff)
    then have "fold presenceStep entries (presenceStep en ss) aid = presenceStep en ss aid"
      by (rule fold_presence_other)
    also have "presenceStep en ss aid =
        Some (s\<lparr>connected := Some online, status := (if online then status s else Disconnected)\<rparr>)"
      using True Cons.prems(3) by (simp add: presenceStep_def)
    finally show ?thesis by simp
  next
    case False
    with Cons.prems have ne: "fst en \<noteq> aid" and mem: "(aid, online) \<in> set entries"
      by (auto simp: image_iff)
    have "presenceStep en ss aid = Some s"
      using ne Cons.prems(3) by (simp add: presenceStep_other)
    moreover have "distinct (map fst entries)" using Cons.prems(1) by simp
    ultimately have "fold presenceStep entries (presenceStep en ss) aid =
        Some (s\<lparr>connected := Some online, status := (if online then status s else Disconnected)\<rparr>)"
      using mem by (intro Cons.IH)
    then show ?thesis by simp
  qed
qed

text \<open>
  C3, as the store has it. A presence event whose agents (an object, so with distinct
  ids) mark a tracked session offline sets its status to \<open>Disconnected\<close> and
  \<open>connected\<close> to false, whatever the status was. A following non-empty stream-delta
  for the session is still appended to every message streaming under its run id, and
  sets the status to \<open>Streaming\<close>: the status does not stay \<open>Disconnected\<close>, while
  \<open>connected\<close> stays false.
\<close>

theorem presence_then_delta_C3:
  assumes "sessions state (agentIdOfKey key) = Some s"
    and "messages s = Some ms"
    and "distinct (map fst entries)"
    and "(agentIdOfKey key, False) \<in> set entries"
    and "chunk \<noteq> []"
  shows "sessions (storeAfter e1 (PresenceEvent (Some entries)) state) (agentIdOfKey key) =
           Some (s\<lparr>connected := Some False, status := Disconnected\<rparr>)
       \<and> sessions (storeAfter e2 (deltaEvent rid key chunk)
                     (storeAfter e1 (PresenceEvent (Some entries)) state)) (agentIdOfKey key) =
           Some (s\<lparr>connected := Some False,
                   messages := Some (map (\<lambda>m. if runId m = rid \<and> streaming m = Some True
                                               then m\<lparr>text_msg := text_msg m @ chunk\<rparr>
                                               else m) ms),
                   tokenCount := map_option (\<lambda>n. n + int (length chunk)) (tokenCount s),
                   status := Streaming\<rparr>)"
  using assms fold_presence_entry [of entries "agentIdOfKey key" False "sessions state" s]
  by (simp add: storeAfter_def handle_delta handlePresence_def setAgentStatus_def
      appendMessageChunk_def appendChunk_fun)

theorem presence_then_delta_C3_witness:
  "sessions (storeAfter (envAt 5) (PresenceEvent (Some [(''a'', False)])) streamingStore) ''a'' =
     Some (streamingSession\<lparr>connected := Some False, status := Disconnected\<rparr>)
   \<and> sessions (storeAfter (envAt 6) (deltaEvent (Some ''r1'') keyA ''llo'')
                (storeAfter (envAt 5) (PresenceEvent (Some [(''a'', False)])) streamingStore)) ''a'' =
     Some (streamingSession\<lparr>connected := Some False,
             messages := Some [userMsg (envAt 0) ''hello'',
                               (assistantMsg (envAt 1) (Some ''r1''))\<lparr>text_msg := ''Hello''\<rparr>],
             tokenCount := Some 5,
             status := Streaming\<rparr>)"
  using presence_then_delta_C3 [of streamingStore keyA streamingSession
      "[userMsg (envAt 0) ''hello'', (assistantMsg (envAt 1) (Some ''r1''))\<lparr>text_msg := ''He''\<rparr>]"
      "[(''a'', False)]" "''llo''" "envAt 5" "envAt 6" "Some ''r1''"]
  by (simp add: agentIdOfKey_keyA streamingStore_def streamingSession_def
      userMsg_def assistantMsg_def)

text \<open>
  C3 as stated fails: column \<open>a\<close> is streaming run \<open>r1\<close>, a presence event marks it
  offline, and the next delta of \<open>r1\<close> leaves its status \<open>Streaming\<close>, with no
  lifecycle start in between.
\<close>

theorem presence_then_delta_C3_counterexample:
  "statusOf streamingStore ''a'' = Some Streaming
   \<and> statusOf (storeAfter (envAt 5) (PresenceEvent (Some [(''a'', False)])) streamingStore) ''a''
       = Some Disconnected
   \<and> statusOf (storeAfter (envAt 6) (deltaEvent (Some ''r1'') keyA ''llo'')
                 (storeAfter (envAt 5) (PresenceEvent (Some [(''a'', False)])) streamingStore)) ''a''
       = Some Streaming"
  by (simp add: statusOf_def streamingStore_def streamingSession_def storeAfter_def handle_delta
      handlePresence_def presenceStep_def agentIdOfKey_keyA appendMessageChunk_def
      setAgentStatus_def)

section \<open>History bootstrap against live events\<close>

lemma parse_oldReply: "parseHistoryMessages (\<lambda>k. envAt 9) (Some [oldReply]) \<noteq> []"
  by (simp add: parseHistoryMessages_def parseOne_def oldReply_def truthy_def extractText_def
      trim_def isSpace_def testAnyCI_def lowerChar_def Let_def)

text \<open>
  C4. When a history fetch resolves, either the store stays as it is, or the session is
  tracked with an empty message list and receives the parsed history: the result is
  committed only to a list that is still empty. Whenever the session's list is not empty
  (a live event has appended a message), the store is unchanged, so the session's
  messages are exactly the ones the live events produced. A list that is still empty
  does receive a non-empty parsed history.
\<close>

theorem history_commit_C4:
  "(historyResolved envs aid raw state = state
      \<or> (\<exists>s. sessions state aid = Some s \<and> messages s = Some []
             \<and> historyResolved envs aid raw state =
                 state\<lparr>sessions := (sessions state)(aid \<mapsto>
                   s\<lparr>messages := Some (parseHistoryMessages envs raw)\<rparr>)\<rparr>))
   \<and> (\<forall>s ms. sessions state aid = Some s \<longrightarrow> messages s = Some ms \<longrightarrow> ms \<noteq> [] \<longrightarrow>
         historyResolved envs aid raw state = state)
   \<and> (\<forall>s. sessions state aid = Some s \<longrightarrow> messages s = Some [] \<longrightarrow>
         parseHistoryMessages envs raw \<noteq> [] \<longrightarrow>
         messagesOf (historyResolved envs aid raw state) aid = Some (parseHistoryMessages envs raw))"
  by (auto simp: historyResolved_def messagesOf_def Let_def split: option.splits)

theorem history_commit_C4_witness:
  "parseHistoryMessages (\<lambda>k. envAt 9) (Some [oldReply]) \<noteq> []
   \<and> messagesOf (storeAfter (envAt 5) (lifecycleEvent (Some ''r9'') keyA ''start'') freshStore) ''a''
       = Some [placeholderMsg (envAt 5) (Some ''r9'') True]
   \<and> historyResolved (\<lambda>k. envAt 9) ''a'' (Some [oldReply])
        (storeAfter (envAt 5) (lifecycleEvent (Some ''r9'') keyA ''start'') freshStore)
       = storeAfter (envAt 5) (lifecycleEvent (Some ''r9'') keyA ''start'') freshStore"
  using history_commit_C4 [of "\<lambda>k. envAt 9" "''a''" "Some [oldReply]"
      "storeAfter (envAt 5) (lifecycleEvent (Some ''r9'') keyA ''start'') freshStore"]
  by (simp add: parse_oldReply messagesOf_def storeAfter_def handle_lifecycle_start
      agentIdOfKey_keyA lifecycleStart_def freshStore_def createSession_def setAgentStatus_def)

section \<open>Lifecycle end\<close>

lemma store_session_same_iff:
  "sessions state aid = Some s \<Longrightarrow>
   (state\<lparr>sessions := (sessions state)(aid \<mapsto> s')\<rparr> = state) = (s' = s)"
proof
  assume tracked: "sessions state aid = Some s"
    and eq: "state\<lparr>sessions := (sessions state)(aid \<mapsto> s')\<rparr> = state"
  from eq have "sessions (state\<lparr>sessions := (sessions state)(aid \<mapsto> s')\<rparr>) aid = sessions state aid"
    by simp
  with tracked show "s' = s" by simp
next
  assume tracked: "sessions state aid = Some s" and "s' = s"
  then have "(sessions state)(aid \<mapsto> s') = sessions state"
    by (simp add: fun_upd_idem)
  then show "state\<lparr>sessions := (sessions state)(aid \<mapsto> s')\<rparr> = state"
    by simp
qed

lemma session_idle_same_iff:
  "(s\<lparr>activeRunId := None, status := Idle\<rparr> = s) = (activeRunId s = None \<and> status s = Idle)"
proof
  assume eq: "s\<lparr>activeRunId := None, status := Idle\<rparr> = s"
  have "activeRunId (s\<lparr>activeRunId := None, status := Idle\<rparr>) = None"
    and "status (s\<lparr>activeRunId := None, status := Idle\<rparr>) = Idle"
    by simp_all
  with eq show "activeRunId s = None \<and> status s = Idle" by simp
next
  assume "activeRunId s = None \<and> status s = Idle"
  then show "s\<lparr>activeRunId := None, status := Idle\<rparr> = s" by simp
qed

lemma lifecycle_end_sealed:
  assumes "sessions state (agentIdOfKey key) = Some s"
    and "messages s = Some ms"
    and "\<forall>m\<in>set ms. runId m = rid \<longrightarrow> streaming m = Some False"
  shows "storeAfter e (lifecycleEvent rid key ''end'') state =
           state\<lparr>sessions := (sessions state)(agentIdOfKey key \<mapsto>
             s\<lparr>activeRunId := None, status := Idle\<rparr>)\<rparr>"
  using assms
  by (simp add: storeAfter_def handle_lifecycle_end finalizeMessage_def map_seal_sealed
      messages_same)

text \<open>
  C5, as the store has it. Applying a lifecycle-end event for a run id twice leaves the
  store as applying it once does. For a tracked session whose messages under that run id
  are all sealed already, or in which no message has that run id, the event leaves the
  messages as they are, clears \<open>activeRunId\<close> and sets the status to \<open>Idle\<close>; so it
  leaves the store as it was exactly when the session had no active run and was idle
  already. It changes nothing when the session id is not tracked.
\<close>

theorem lifecycle_end_C5:
  "storeAfter e2 (lifecycleEvent rid key ''end'') (storeAfter e1 (lifecycleEvent rid key ''end'') state)
     = storeAfter e1 (lifecycleEvent rid key ''end'') state
   \<and> (\<forall>s ms. sessions state (agentIdOfKey key) = Some s \<longrightarrow> messages s = Some ms \<longrightarrow>
         (\<forall>m\<in>set ms. runId m = rid \<longrightarrow> streaming m = Some False) \<longrightarrow>
         storeAfter e1 (lifecycleEvent rid key ''end'') state =
           state\<lparr>sessions := (sessions state)(agentIdOfKey key \<mapsto>
             s\<lparr>activeRunId := None, status := Idle\<rparr>)\<rparr>)
   \<and> (\<forall>s ms. sessions state (agentIdOfKey key) = Some s \<longrightarrow> messages s = Some ms \<longrightarrow>
         (\<forall>m\<in>set ms. runId m = rid \<longrightarrow> streaming m = Some False) \<longrightarrow>
         (storeAfter e1 (lifecycleEvent rid key ''end'') state = state)
           = (activeRunId s = None \<and> status s = Idle))
   \<and> (sessions state (agentIdOfKey key) = None \<longrightarrow>
         storeAfter e1 (lifecycleEvent rid key ''end'') state = state)"
proof (intro conjI allI impI)
  show "storeAfter e2 (lifecycleEvent rid key ''end'')
          (storeAfter e1 (lifecycleEvent rid key ''end'') state)
        = storeAfter e1 (lifecycleEvent rid key ''end'') state"
    by (simp add: storeAfter_def handle_lifecycle_end finalizeMessage_idem)
next
  fix s ms
  assume "sessions state (agentIdOfKey key) = Some s" "messages s = Some ms"
    "\<forall>m\<in>set ms. runId m = rid \<longrightarrow> streaming m = Some False"
  then show "storeAfter e1 (lifecycleEvent rid key ''end'') state =
           state\<lparr>sessions := (sessions state)(agentIdOfKey key \<mapsto>
             s\<lparr>activeRunId := None, status := Idle\<rparr>)\<rparr>"
    by (rule lifecycle_end_sealed)
next
  fix s ms
  assume h: "sessions state (agentIdOfKey key) = Some s" "messages s = Some ms"
    "\<forall>m\<in>set ms. runId m = rid \<longrightarrow> streaming m = Some False"
  show "(storeAfter e1 (lifecycleEvent rid key ''end'') state = state)
          = (activeRunId s = None \<and> status s = Idle)"
    unfolding lifecycle_end_sealed [OF h] store_session_same_iff [OF h(1)]
    by (rule session_idle_same_iff)
next
  assume "sessions state (agentIdOfKey key) = None"
  then show "storeAfter e1 (lifecycleEvent rid key ''end'') state = state"
    by (simp add: storeAfter_def handle_lifecycle_end finalizeMessage_def)
qed

theorem lifecycle_end_C5_witness:
  "storeAfter (envAt 7) (lifecycleEvent (Some ''r1'') keyA ''end'')
     (storeAfter (envAt 6) (lifecycleEvent (Some ''r1'') keyA ''end'') streamingStore)
     = storeAfter (envAt 6) (lifecycleEvent (Some ''r1'') keyA ''end'') streamingStore
   \<and> storeAfter (envAt 6) (lifecycleEvent (Some ''r2'') keyA ''end'') streamingStore
       = streamingStore\<lparr>sessions := [''a'' \<mapsto> streamingSession\<lparr>activeRunId := None, status := Idle\<rparr>]\<rparr>
   \<and> storeAfter (envAt 6) (lifecycleEvent (Some ''r2'') keyA ''end'') streamingStore \<noteq> streamingStore
   \<and> storeAfter (envAt 6) (lifecycleEvent (Some ''r1'') keyA ''end'') freshStore = freshStore
   \<and> storeAfter (envAt 6) (lifecycleEvent (Some ''r1'') keyA ''end'') emptyStore = emptyStore"
proof -
  let ?ms = "[userMsg (envAt 0) ''hello'', (assistantMsg (envAt 1) (Some ''r1''))\<lparr>text_msg := ''He''\<rparr>]"
  have k: "agentIdOfKey keyA = ''a''" by (rule agentIdOfKey_keyA)
  have s1: "sessions streamingStore (agentIdOfKey keyA) = Some streamingSession"
    by (simp add: k streamingStore_def)
  have m1: "messages streamingSession = Some ?ms"
    by (simp add: streamingSession_def)
  have sealed1: "\<forall>m\<in>set ?ms. runId m = Some ''r2'' \<longrightarrow> streaming m = Some False"
    by (simp add: userMsg_def assistantMsg_def)
  have s2: "sessions freshStore (agentIdOfKey keyA) = Some (createSession ''a'')"
    by (simp add: k freshStore_def)
  have m2: "messages (createSession ''a'') = Some []"
    by (simp add: createSession_def)
  have sealed2: "\<forall>m\<in>set ([]::chatMessage list). runId m = Some ''r1'' \<longrightarrow> streaming m = Some False"
    by simp
  have s3: "sessions emptyStore (agentIdOfKey keyA) = None"
    by (simp add: emptyStore_def)
  have upd: "(sessions streamingStore)(''a'' \<mapsto> x) = [''a'' \<mapsto> x]" for x
    by (simp add: streamingStore_def)
  have A: "storeAfter (envAt 7) (lifecycleEvent (Some ''r1'') keyA ''end'')
             (storeAfter (envAt 6) (lifecycleEvent (Some ''r1'') keyA ''end'') streamingStore)
           = storeAfter (envAt 6) (lifecycleEvent (Some ''r1'') keyA ''end'') streamingStore"
    using lifecycle_end_C5 [of "envAt 7" "Some ''r1''" keyA "envAt 6" streamingStore]
    by blast
  have B: "storeAfter (envAt 6) (lifecycleEvent (Some ''r2'') keyA ''end'') streamingStore
           = streamingStore\<lparr>sessions := [''a'' \<mapsto> streamingSession\<lparr>activeRunId := None, status := Idle\<rparr>]\<rparr>"
    using lifecycle_end_C5 [of "envAt 7" "Some ''r2''" keyA "envAt 6" streamingStore]
      s1 m1 sealed1
    by (simp add: k upd)
  have "(storeAfter (envAt 6) (lifecycleEvent (Some ''r2'') keyA ''end'') streamingStore = streamingStore)
          = (activeRunId streamingSession = None \<and> status streamingSession = Idle)"
    using lifecycle_end_C5 [of "envAt 7" "Some ''r2''" keyA "envAt 6" streamingStore]
      s1 m1 sealed1
    by blast
  then have C: "storeAfter (envAt 6) (lifecycleEvent (Some ''r2'') keyA ''end'') streamingStore
                  \<noteq> streamingStore"
    by (simp add: streamingSession_def)
  have "(storeAfter (envAt 6) (lifecycleEvent (Some ''r1'') keyA ''end'') freshStore = freshStore)
          = (activeRunId (createSession ''a'') = None \<and> status (createSession ''a'') = Idle)"
    using lifecycle_end_C5 [of "envAt 7" "Some ''r1''" keyA "envAt 6" freshStore] s2 m2 sealed2
    by blast
  then have D: "storeAfter (envAt 6) (lifecycleEvent (Some ''r1'') keyA ''end'') freshStore = freshStore"
    by (simp add: createSession_def)
  have E: "storeAfter (envAt 6) (lifecycleEvent (Some ''r1'') keyA ''end'') emptyStore = emptyStore"
    using lifecycle_end_C5 [of "envAt 7" "Some ''r1''" keyA "envAt 6" emptyStore] s3
    by blast
  from A B C D E show ?thesis by blast
qed

text \<open>
  C5 as stated fails in its second half: column \<open>a\<close> is streaming run \<open>r1\<close>, no
  message has run id \<open>r2\<close>, and a lifecycle end for \<open>r2\<close> turns the status to
  \<open>Idle\<close> and clears the active run.
\<close>

theorem lifecycle_end_C5_counterexample:
  "messagesOf streamingStore ''a''
     = Some [userMsg (envAt 0) ''hello'', (assistantMsg (envAt 1) (Some ''r1''))\<lparr>text_msg := ''He''\<rparr>]
   \<and> runId (userMsg (envAt 0) ''hello'') = None
   \<and> runId ((assistantMsg (envAt 1) (Some ''r1''))\<lparr>text_msg := ''He''\<rparr>) = Some ''r1''
   \<and> statusOf streamingStore ''a'' = Some Streaming
   \<and> map_option activeRunId (sessions streamingStore ''a'') = Some (Some ''r1'')
   \<and> statusOf (storeAfter (envAt 6) (lifecycleEvent (Some ''r2'') keyA ''end'') streamingStore) ''a''
       = Some Idle
   \<and> map_option activeRunId
        (sessions (storeAfter (envAt 6) (lifecycleEvent (Some ''r2'') keyA ''end'') streamingStore) ''a'')
       = Some None"
  by (simp add: messagesOf_def statusOf_def streamingStore_def streamingSession_def storeAfter_def
      handle_lifecycle_end finalizeMessage_def agentIdOfKey_keyA userMsg_def assistantMsg_def)

section \<open>Sending\<close>

text \<open>
  C9. A call of \<^verbatim>\<open>sendMessage\<close> on a connected client for a tracked session, whose
  \<^verbatim>\<open>runAgent\<close> request rejects, ends with the session's status \<open>Error\<close> and its
  messages the prior history followed by the user message alone: no streaming
  placeholder is created. The rejection itself, on whatever the store holds by then for
  the session, changes the status and nothing else.
\<close>

theorem sendMessage_rejected_C9:
  "(clientConnected state = Some True \<longrightarrow> sessions state aid = Some session \<longrightarrow>
      messages session = Some ms \<longrightarrow>
      sendMessage e1 e2 aid txt Rejected state =
        Inr (state\<lparr>sessions := (sessions state)(aid \<mapsto>
               session\<lparr>messages := Some (ms @ [userMsg e1 txt]), status := Error\<rparr>)\<rparr>))
   \<and> (sessions state' aid = Some session' \<longrightarrow>
        sendMessageSettle e2 aid Rejected state' =
          state'\<lparr>sessions := (sessions state')(aid \<mapsto> session'\<lparr>status := Error\<rparr>)\<rparr>)"
  by (simp add: sendMessage_def sendMessageStart_def sendMessageSettle_def runFailed_def)

theorem sendMessage_rejected_C9_witness:
  "sendMessage (envAt 1) (envAt 2) ''a'' ''hello'' Rejected freshStore =
     Inr (freshStore\<lparr>sessions := [''a'' \<mapsto>
            (createSession ''a'')\<lparr>messages := Some [userMsg (envAt 1) ''hello''],
                                   status := Error\<rparr>]\<rparr>)
   \<and> sendMessageSettle (envAt 2) ''a'' Rejected streamingStore =
       streamingStore\<lparr>sessions := [''a'' \<mapsto> streamingSession\<lparr>status := Error\<rparr>]\<rparr>"
  using sendMessage_rejected_C9 [of freshStore "''a''" "createSession ''a''" "[]"
      "envAt 1" "envAt 2" "''hello''" streamingStore streamingSession]
  by (simp add: freshStore_def createSession_def streamingStore_def)

text \<open>
  C10, at an input where the store departs from it. The client is connected and no
  session is tracked under \<open>constructor\<close>; \<^verbatim>\<open>sendMessage("constructor", "hello")\<close>
  does not return quietly: \<^verbatim>\<open>sessions["constructor"]\<close> reads the inherited member
  of \<^verbatim>\<open>Object.prototype\<close>, the guard lets it through, and the call throws a
  \<^verbatim>\<open>TypeError\<close>.
\<close>

theorem sendMessage_prototype_C10:
  "clientConnected freshStore = Some True
   \<and> sessions freshStore ''constructor'' = None
   \<and> sendMessage (envAt 1) (envAt 2) ''constructor'' ''hello'' (Resolved (Some ''r1'')) freshStore
       = Inl TypeError"
  by (simp add: sendMessage_def sendMessageStart_def freshStore_def objectPrototypeKeys_def)

text \<open>
  The rest of C10 holds: while the client is absent or not connected, and for an
  untracked agent id that names no member of \<^verbatim>\<open>Object.prototype\<close>, the call returns
  without an error and leaves the whole store as it was.
\<close>

lemma sendMessage_guards:
  assumes "clientConnected state \<noteq> Some True
           \<or> (sessions state aid = None \<and> aid \<notin> set objectPrototypeKeys)"
  shows "sendMessage e1 e2 aid txt outcome state = Inr state"
  using assms by (auto simp: sendMessage_def sendMessageStart_def)

section \<open>Server-pushed chat turns\<close>

text \<open>
  A final chat event for a tracked session with a message object: the store it leaves,
  by the filters of the handler in their order.
\<close>

lemma handleChat_tracked:
  assumes "sessions state aid = Some s"
    and "messages s = Some ms"
    and "agentIdOfKey (orElse (chat_sessionKey p) (chat_session p)) = aid"
    and "chat_state p = Some ''final''"
    and "chatBodyOf p = Some b"
  shows "handleChat e p state =
     Inr (if trim (chatText b) = [] \<or> testAnyCI [''heartbeat_ok'', ''heartbeat''] (chatText b)
             \<or> body_role b = Some ''tool'' \<or> body_role b = Some ''function''
             \<or> (truthy (chat_runId p) \<and> list_ex (\<lambda>m. runId m = chat_runId p) ms)
             \<or> (ms \<noteq> [] \<and> text_msg (last ms) = chatText b \<and> now e - timestamp (last ms) < 5000)
             \<or> \<not> (body_role b = Some ''assistant'' \<or> body_role b = Some ''system'')
          then state
          else state\<lparr>sessions := (sessions state)(aid \<mapsto>
                 s\<lparr>messages := Some (ms @ [announcementMsg e (chatText b) (chat_runId p)])\<rparr>)\<rparr>)"
  using assms by (simp add: handleChat_def Let_def)

lemma chat_first_appended:
  assumes "sessions state aid = Some s"
    and "messages s = Some ms"
    and "agentIdOfKey (orElse (chat_sessionKey p) (chat_session p)) = aid"
    and "chat_state p = Some ''final''"
    and "chatBodyOf p = Some b"
    and "messagesOf (storeAfter e (ChatEvent p) state) aid \<noteq> Some ms"
  shows "storeAfter e (ChatEvent p) state =
           state\<lparr>sessions := (sessions state)(aid \<mapsto>
                 s\<lparr>messages := Some (ms @ [announcementMsg e (chatText b) (chat_runId p)])\<rparr>)\<rparr>
         \<and> trim (chatText b) \<noteq> []
         \<and> \<not> testAnyCI [''heartbeat_ok'', ''heartbeat''] (chatText b)"
proof -
  let ?c = "trim (chatText b) = [] \<or> testAnyCI [''heartbeat_ok'', ''heartbeat''] (chatText b)
             \<or> body_role b = Some ''tool'' \<or> body_role b = Some ''function''
             \<or> (truthy (chat_runId p) \<and> list_ex (\<lambda>m. runId m = chat_runId p) ms)
             \<or> (ms \<noteq> [] \<and> text_msg (last ms) = chatText b \<and> now e - timestamp (last ms) < 5000)
             \<or> \<not> (body_role b = Some ''assistant'' \<or> body_role b = Some ''system'')"
  note h = handleChat_tracked [OF assms(1-5), of e]
  show ?thesis
  proof (cases ?c)
    case True
    then have "storeAfter e (ChatEvent p) state = state"
      unfolding storeAfter_def handleGatewayEvent.simps h by (simp only: if_P if_True sum.case)
    with assms(1,2,6) show ?thesis by (simp add: messagesOf_def)
  next
    case False
    then have "storeAfter e (ChatEvent p) state =
           state\<lparr>sessions := (sessions state)(aid \<mapsto>
                 s\<lparr>messages := Some (ms @ [announcementMsg e (chatText b) (chat_runId p)])\<rparr>)\<rparr>"
      unfolding storeAfter_def handleGatewayEvent.simps h by (simp only: if_not_P if_False sum.case)
    with False show ?thesis by blast
  qed
qed

lemma finalChat_fields:
  "chat_state (finalChat rid key r txt) = Some ''final''"
  "chat_runId (finalChat rid key r txt) = rid"
  "orElse (chat_sessionKey (finalChat rid key r txt)) (chat_session (finalChat rid key r txt)) = key"
  "chatBodyOf (finalChat rid key r txt) =
     Some \<lparr>body_role = Some r, body_content = Some (Str txt), body_text = None, body_body = None\<rparr>"
  "chatText \<lparr>body_role = Some r, body_content = Some (Str txt), body_text = None, body_body = None\<rparr> = txt"
  by (simp_all add: finalChat_def chatBodyOf_def chatText_def orElse_def extractText_def
      split: option.splits)

lemma done_passes:
  "trim ''done'' \<noteq> []" "\<not> testAnyCI [''heartbeat_ok'', ''heartbeat''] ''done''"
  by (simp_all add: trim_def isSpace_def testAnyCI_def lowerChar_def)

lemma first_chat_fresh:
  "storeAfter (envAt t) (ChatEvent (finalChat rid keyA ''assistant'' ''done'')) freshStore =
     freshStore\<lparr>sessions := [''a'' \<mapsto>
       (createSession ''a'')\<lparr>messages := Some [announcementMsg (envAt t) ''done'' rid]\<rparr>]\<rparr>"
  by (simp add: storeAfter_def handleChat_def finalChat_fields agentIdOfKey_keyA done_passes
      Let_def freshStore_def createSession_def truthy_def)

text \<open>
  C7, as the store has it. Take two chat events in state \<^verbatim>\<open>final\<close> for the same
  tracked session with the same extracted text, the first of which is appended as an
  announcement at time \<open>now e1\<close>, and let the second be handled next at time \<open>now e2\<close>.
  If \<open>now e2 - now e1 < 5000\<close>, the session holds the one announcement. If the second
  carries the same non-empty run id as the first, the session holds the one
  announcement as well, however late the second arrives. If the second arrives 5000 ms
  or more after the first, with role \<^verbatim>\<open>assistant\<close> or \<^verbatim>\<open>system\<close> and a run id that is
  absent, empty, or different from the first's and from every message's, the session
  holds two announcements.
\<close>

theorem chat_dedup_C7:
  assumes "sessions state aid = Some s"
    and "messages s = Some ms"
    and "agentIdOfKey (orElse (chat_sessionKey p1) (chat_session p1)) = aid"
    and "agentIdOfKey (orElse (chat_sessionKey p2) (chat_session p2)) = aid"
    and "chat_state p1 = Some ''final''"
    and "chat_state p2 = Some ''final''"
    and "chatBodyOf p1 = Some b1"
    and "chatBodyOf p2 = Some b2"
    and "chatText b2 = chatText b1"
    and "messagesOf (storeAfter e1 (ChatEvent p1) state) aid \<noteq> Some ms"
  shows "messagesOf (storeAfter e1 (ChatEvent p1) state) aid
           = Some (ms @ [announcementMsg e1 (chatText b1) (chat_runId p1)])
       \<and> (now e2 - now e1 < 5000 \<longrightarrow>
            messagesOf (storeAfter e2 (ChatEvent p2) (storeAfter e1 (ChatEvent p1) state)) aid
              = Some (ms @ [announcementMsg e1 (chatText b1) (chat_runId p1)]))
       \<and> (truthy (chat_runId p2) \<and> chat_runId p2 = chat_runId p1 \<longrightarrow>
            messagesOf (storeAfter e2 (ChatEvent p2) (storeAfter e1 (ChatEvent p1) state)) aid
              = Some (ms @ [announcementMsg e1 (chatText b1) (chat_runId p1)]))
       \<and> (5000 \<le> now e2 - now e1
            \<and> (body_role b2 = Some ''assistant'' \<or> body_role b2 = Some ''system'')
            \<and> (chat_runId p2 = None \<or> chat_runId p2 = Some []
                 \<or> (chat_runId p2 \<noteq> chat_runId p1
                      \<and> list_all (\<lambda>m. runId m \<noteq> chat_runId p2) ms)) \<longrightarrow>
            messagesOf (storeAfter e2 (ChatEvent p2) (storeAfter e1 (ChatEvent p1) state)) aid
              = Some (ms @ [announcementMsg e1 (chatText b1) (chat_runId p1),
                            announcementMsg e2 (chatText b1) (chat_runId p2)]))"
proof -
  let ?a1 = "announcementMsg e1 (chatText b1) (chat_runId p1)"
  let ?a2 = "announcementMsg e2 (chatText b2) (chat_runId p2)"
  let ?s1 = "s\<lparr>messages := Some (ms @ [?a1])\<rparr>"
  let ?st1 = "state\<lparr>sessions := (sessions state)(aid \<mapsto> ?s1)\<rparr>"
  let ?st2 = "?st1\<lparr>sessions := (sessions ?st1)(aid \<mapsto> ?s1\<lparr>messages := Some ((ms @ [?a1]) @ [?a2])\<rparr>)\<rparr>"
  let ?c2 = "trim (chatText b2) = [] \<or> testAnyCI [''heartbeat_ok'', ''heartbeat''] (chatText b2)
             \<or> body_role b2 = Some ''tool'' \<or> body_role b2 = Some ''function''
             \<or> (truthy (chat_runId p2) \<and> list_ex (\<lambda>m. runId m = chat_runId p2) (ms @ [?a1]))
             \<or> ((ms @ [?a1]) \<noteq> [] \<and> text_msg (last (ms @ [?a1])) = chatText b2
                   \<and> now e2 - timestamp (last (ms @ [?a1])) < 5000)
             \<or> \<not> (body_role b2 = Some ''assistant'' \<or> body_role b2 = Some ''system'')"
  from chat_first_appended [OF assms(1,2,3,5,7,10)]
  have st1: "storeAfter e1 (ChatEvent p1) state = ?st1"
    and nonblank: "trim (chatText b1) \<noteq> []"
    and nohb: "\<not> testAnyCI [''heartbeat_ok'', ''heartbeat''] (chatText b1)"
    by simp_all
  have tracked1: "sessions ?st1 aid = Some ?s1" by simp
  have msgs1: "messages ?s1 = Some (ms @ [?a1])" by simp
  have second: "storeAfter e2 (ChatEvent p2) ?st1 = (if ?c2 then ?st1 else ?st2)"
    unfolding storeAfter_def handleGatewayEvent.simps
      handleChat_tracked [OF tracked1 msgs1 assms(4) assms(6) assms(8), of e2]
    by (simp only: sum.case)
  have a1: "text_msg ?a1 = chatText b1" "timestamp ?a1 = now e1" "runId ?a1 = chat_runId p1"
    by (simp_all add: announcementMsg_def)
  have m1: "messagesOf ?st1 aid = Some (ms @ [?a1])"
    by (simp add: messagesOf_def)
  have m2: "messagesOf ?st2 aid = Some (ms @ [?a1, ?a2])"
    by (simp add: messagesOf_def)
  have first: "messagesOf (storeAfter e1 (ChatEvent p1) state) aid = Some (ms @ [?a1])"
    unfolding st1 by (rule m1)
  have window: "messagesOf (storeAfter e2 (ChatEvent p2) ?st1) aid = Some (ms @ [?a1])"
    if "now e2 - now e1 < 5000"
  proof -
    from that have ?c2 by (simp add: a1 assms(9))
    then show ?thesis unfolding second using m1 by (simp only: if_P if_True)
  qed
  have samerun: "messagesOf (storeAfter e2 (ChatEvent p2) ?st1) aid = Some (ms @ [?a1])"
    if "truthy (chat_runId p2) \<and> chat_runId p2 = chat_runId p1"
  proof -
    from that have ?c2 by (auto simp: a1)
    then show ?thesis unfolding second using m1 by (simp only: if_P if_True)
  qed
  have late: "messagesOf (storeAfter e2 (ChatEvent p2) ?st1) aid = Some (ms @ [?a1, ?a2])"
    if "5000 \<le> now e2 - now e1
          \<and> (body_role b2 = Some ''assistant'' \<or> body_role b2 = Some ''system'')
          \<and> (chat_runId p2 = None \<or> chat_runId p2 = Some []
               \<or> (chat_runId p2 \<noteq> chat_runId p1 \<and> list_all (\<lambda>m. runId m \<noteq> chat_runId p2) ms))"
  proof -
    from that have r: "body_role b2 \<noteq> Some ''tool''" "body_role b2 \<noteq> Some ''function''"
      by auto
    from that have rid: "\<not> (truthy (chat_runId p2) \<and> list_ex (\<lambda>m. runId m = chat_runId p2) (ms @ [?a1]))"
      by (auto simp: truthy_def a1 list_ex_iff list_all_iff)
    from that have "\<not> now e2 - timestamp (last (ms @ [?a1])) < 5000"
      by (simp add: a1)
    with that r rid nonblank nohb have "\<not> ?c2"
      by (simp add: assms(9))
    then show ?thesis unfolding second using m2 by (simp only: if_not_P if_False)
  qed
  from m1 window samerun late show ?thesis
    unfolding st1 assms(9) by blast
qed

theorem chat_dedup_C7_witness:
  "messagesOf (storeAfter (envAt 3000) (ChatEvent (finalChat None keyA ''assistant'' ''done''))
        (storeAfter (envAt 0) (ChatEvent (finalChat None keyA ''assistant'' ''done'')) freshStore)) ''a''
     = Some [announcementMsg (envAt 0) ''done'' None]
   \<and> messagesOf (storeAfter (envAt 10000) (ChatEvent (finalChat None keyA ''assistant'' ''done''))
        (storeAfter (envAt 0) (ChatEvent (finalChat None keyA ''assistant'' ''done'')) freshStore)) ''a''
     = Some [announcementMsg (envAt 0) ''done'' None, announcementMsg (envAt 10000) ''done'' None]"
proof -
  let ?p = "finalChat None keyA ''assistant'' ''done''"
  let ?b = "\<lparr>body_role = Some ''assistant'', body_content = Some (Str ''done''),
             body_text = None, body_body = None\<rparr>"
  have h1: "sessions freshStore ''a'' = Some (createSession ''a'')"
    by (simp add: freshStore_def)
  have h2: "messages (createSession ''a'') = Some []"
    by (simp add: createSession_def)
  have h3: "agentIdOfKey (orElse (chat_sessionKey ?p) (chat_session ?p)) = ''a''"
    by (simp add: finalChat_fields agentIdOfKey_keyA)
  have h4: "chat_state ?p = Some ''final''"
    by (simp add: finalChat_fields)
  have h5: "chatBodyOf ?p = Some ?b"
    by (simp add: finalChat_fields)
  have h6: "messagesOf (storeAfter (envAt 0) (ChatEvent ?p) freshStore) ''a'' \<noteq> Some []"
    by (simp add: first_chat_fresh messagesOf_def)
  note w = chat_dedup_C7 [OF h1 h2 h3 h3 h4 h4 h5 h5 refl h6]
  have early: "now (envAt 3000) - now (envAt 0) < 5000"
    by (simp add: envAt_def)
  have late: "5000 \<le> now (envAt 10000) - now (envAt 0)"
    by (simp add: envAt_def)
  from w [of "envAt 3000"] early
  have A: "messagesOf (storeAfter (envAt 3000) (ChatEvent ?p)
                (storeAfter (envAt 0) (ChatEvent ?p) freshStore)) ''a''
             = Some [announcementMsg (envAt 0) ''done'' None]"
    by (simp add: finalChat_fields)
  from w [of "envAt 10000"] late
  have B: "messagesOf (storeAfter (envAt 10000) (ChatEvent ?p)
                (storeAfter (envAt 0) (ChatEvent ?p) freshStore)) ''a''
             = Some [announcementMsg (envAt 0) ''done'' None, announcementMsg (envAt 10000) ''done'' None]"
    by (simp add: finalChat_fields)
  from A B show ?thesis by simp
qed

text \<open>
  C7 as stated fails in its second half: two final chat events with the same text and
  the same run id \<open>r1\<close>, 10000 ms apart, leave one announcement, not two.
\<close>

theorem chat_dedup_C7_counterexample:
  "\<not> (now (envAt 10000) - now (envAt 0) < 5000)
   \<and> messagesOf (storeAfter (envAt 10000) (ChatEvent (finalChat (Some ''r1'') keyA ''assistant'' ''done''))
        (storeAfter (envAt 0) (ChatEvent (finalChat (Some ''r1'') keyA ''assistant'' ''done'')) freshStore)) ''a''
     = Some [announcementMsg (envAt 0) ''done'' (Some ''r1'')]"
  unfolding first_chat_fresh
  by (simp add: storeAfter_def handleChat_def finalChat_fields agentIdOfKey_keyA done_passes Let_def
      messagesOf_def truthy_def announcementMsg_def envAt_def freshStore_def createSession_def)

lemma noreply_passes:
  "trim ''NO_REPLY'' \<noteq> []" "\<not> testAnyCI [''heartbeat_ok'', ''heartbeat''] ''NO_REPLY''"
  "testAnyCI [''heartbeat_ok'', ''heartbeat'', ''no_reply''] ''NO_REPLY''"
  by (simp_all add: trim_def isSpace_def testAnyCI_def lowerChar_def)

text \<open>
  C8, at an input where the store departs from it. A final chat event of role
  \<^verbatim>\<open>assistant\<close> whose text is the no-reply sentinel \<^verbatim>\<open>NO_REPLY\<close> is not dropped:
  it is appended as an announcement. The pattern of the chat handler names the
  heartbeat sentinels only, while \<^verbatim>\<open>parseHistoryMessages\<close> drops the same message.
\<close>

theorem chat_noreply_C8:
  "handleGatewayEvent (envAt 5) (ChatEvent (finalChat None keyA ''assistant'' ''NO_REPLY'')) freshStore
     = Inr (freshStore\<lparr>sessions := [''a'' \<mapsto>
         (createSession ''a'')\<lparr>messages := Some [announcementMsg (envAt 5) ''NO_REPLY'' None]\<rparr>]\<rparr>)
   \<and> parseOne (envAt 5) \<lparr>raw_role = Some ''assistant'', raw_content = Some (Str ''NO_REPLY''),
                           raw_timestamp = None, raw_kind = None\<rparr> = []"
  by (simp add: handleChat_def finalChat_fields agentIdOfKey_keyA noreply_passes Let_def
      freshStore_def createSession_def truthy_def parseOne_def extractText_def)

text \<open>
  The rest of C8 holds: a chat event changes the store only in state \<^verbatim>\<open>final\<close>, for a
  tracked session, with a text that is not blank and has no heartbeat sentinel, a role
  that is \<^verbatim>\<open>assistant\<close> or \<^verbatim>\<open>system\<close>, and a run id that no message carries; what it
  then does is append one announcement.
\<close>

lemma chat_mutation_conditions:
  assumes "handleGatewayEvent e (ChatEvent p) state = Inr state'"
    and "state' \<noteq> state"
  shows "chat_state p = Some ''final''
       \<and> (\<exists>b s ms. chatBodyOf p = Some b
            \<and> sessions state (agentIdOfKey (orElse (chat_sessionKey p) (chat_session p))) = Some s
            \<and> messages s = Some ms
            \<and> trim (chatText b) \<noteq> []
            \<and> \<not> testAnyCI [''heartbeat_ok'', ''heartbeat''] (chatText b)
            \<and> body_role b \<noteq> Some ''tool'' \<and> body_role b \<noteq> Some ''function''
            \<and> (body_role b = Some ''assistant'' \<or> body_role b = Some ''system'')
            \<and> \<not> (truthy (chat_runId p) \<and> list_ex (\<lambda>m. runId m = chat_runId p) ms)
            \<and> state' = state\<lparr>sessions := (sessions state)
                 (agentIdOfKey (orElse (chat_sessionKey p) (chat_session p)) \<mapsto>
                    s\<lparr>messages := Some (ms @ [announcementMsg e (chatText b) (chat_runId p)])\<rparr>)\<rparr>)"
  using assms
  by (simp add: handleChat_def Let_def split: option.splits if_splits)

end
